theory Spec2Isabelle
  imports Complex_Main
begin

section \<open>The creep of creeps.py\<close>

text \<open>
  A shallow embedding of the class \<open>Creep\<close> of \<open>creeps.py\<close>. The file is Python 2
  (its indentation mixes tabs and spaces in one block, which Python 3 rejects), so
  \<open>/\<close> between two ints is floor division and \<open>int\<close> of a float truncates toward zero.
  Floats are modelled by \<open>real\<close>, Python ints by \<open>int\<close>.

  Every method that mutates the creep returns the creep as the call leaves it together
  with the exception the call raised, if any: a Python method that raises keeps the
  assignments it made before.
\<close>

subsection \<open>Errors\<close>

datatype error = AttributeError | IndexError | InvalidAnimationError

subsection \<open>pygame: Rect and Surface\<close>

text \<open>
  \<open>pygame.Rect\<close> holds four ints; \<open>right\<close> and \<open>bottom\<close> are derived. \<open>inflate\<close>
  changes the size by the given offsets and moves the corner by half of each offset,
  with C division (rounding toward zero).
\<close>

record Rect =
  left_r :: int
  top_r :: int
  width_r :: int
  height_r :: int

definition right_r :: "Rect \<Rightarrow> int" where
  "right_r r = left_r r + width_r r"

definition bottom_r :: "Rect \<Rightarrow> int" where
  "bottom_r r = top_r r + height_r r"

definition c_half :: "int \<Rightarrow> int" where
  "c_half n = (if n < 0 then - ((- n) div 2) else n div 2)"

definition inflate :: "Rect \<Rightarrow> int \<Rightarrow> int \<Rightarrow> Rect" where
  "inflate r dx dy =
     \<lparr>left_r = left_r r - c_half dx, top_r = top_r r - c_half dy,
      width_r = width_r r + dx, height_r = height_r r + dy\<rparr>"

text \<open>
  A \<open>pygame.Surface\<close>, as far as the creep looks at it: its size and the alpha
  channel of each pixel. \<open>get_at\<close> raises \<open>IndexError\<close> outside the pixel area.
\<close>

record Surface =
  surf_w :: int
  surf_h :: int
  surf_alpha :: "int \<Rightarrow> int \<Rightarrow> int"

definition get_size :: "Surface \<Rightarrow> int \<times> int" where
  "get_size s = (surf_w s, surf_h s)"

definition get_at_alpha :: "Surface \<Rightarrow> int \<times> int \<Rightarrow> error + int" where
  "get_at_alpha s p =
     (if 0 \<le> fst p \<and> fst p < surf_w s \<and> 0 \<le> snd p \<and> snd p < surf_h s
      then Inr (surf_alpha s (fst p) (snd p)) else Inl IndexError)"

text \<open>
  \<open>pygame.transform.rotate\<close> is a parameter of the model: a function from a
  surface and an angle in degrees to the rotated surface.
\<close>

type_synonym transform_rotate = "Surface \<Rightarrow> real \<Rightarrow> Surface"

subsection \<open>vec2d\<close>

text \<open>
  The module \<open>vec2d\<close> is not among the sources; the creep uses its constructor, the
  attributes \<open>x\<close> and \<open>y\<close>, \<open>+=\<close>, \<open>normalized\<close>, \<open>angle\<close> and \<open>rotate\<close>.
\<close>

record vec2d =
  vec_x :: real
  vec_y :: real

definition vec_add :: "vec2d \<Rightarrow> vec2d \<Rightarrow> vec2d" where
  "vec_add a b = \<lparr>vec_x = vec_x a + vec_x b, vec_y = vec_y a + vec_y b\<rparr>"

definition get_length :: "vec2d \<Rightarrow> real" where
  "get_length v = sqrt (vec_x v * vec_x v + vec_y v * vec_y v)"

text \<open>\<open>math.atan2\<close>, the angle of the point \<open>(a, b)\<close> in radians.\<close>

definition math_atan2 :: "real \<Rightarrow> real \<Rightarrow> real" where
  "math_atan2 b a =
     (if 0 < a then arctan (b / a)
      else if a < 0 then (if 0 \<le> b then arctan (b / a) + pi else arctan (b / a) - pi)
      else if 0 < b then pi / 2 else if b < 0 then - (pi / 2) else 0)"

text \<open>
  Modelled from the spec: \<open>vec2d.normalized\<close> is missing. Sections 3 and 4.1: the
  vector scaled to length 1; a vector of length 0 is returned as it is (the zero-safe
  choice that section 4.1 allows).
\<close>

definition normalized :: "vec2d \<Rightarrow> vec2d" where
  "normalized v =
     (if get_length v = 0 then v
      else \<lparr>vec_x = vec_x v / get_length v, vec_y = vec_y v / get_length v\<rparr>)"

text \<open>
  Modelled from the spec: \<open>vec2d.angle\<close> is missing. Sections 3 and 4.1: the angle
  from the positive x axis, in degrees, growing clockwise on a screen whose y axis
  points down.
\<close>

definition angle :: "vec2d \<Rightarrow> real" where
  "angle v =
     (if vec_x v = 0 \<and> vec_y v = 0 then 0
      else math_atan2 (vec_y v) (vec_x v) * 180 / pi)"

text \<open>
  Modelled from the spec: \<open>vec2d.rotate\<close> is missing. Section 4.1: the rotation by an
  angle in degrees, which keeps the magnitude.
\<close>

definition rotate_v :: "vec2d \<Rightarrow> real \<Rightarrow> vec2d" where
  "rotate_v v deg =
     \<lparr>vec_x = vec_x v * cos (deg * pi / 180) - vec_y v * sin (deg * pi / 180),
      vec_y = vec_x v * sin (deg * pi / 180) + vec_y v * cos (deg * pi / 180)\<rparr>"

subsection \<open>SimpleAnimation\<close>

text \<open>
  Modelled from the spec: the class \<open>SimpleAnimation\<close> is missing. Section 3: an
  animation holds its frames, the duration of a frame, the start delay, the time
  elapsed and whether it is active; the origin is where it is drawn.
\<close>

record Animation =
  origin :: "real \<times> real"
  frames :: "Surface list"
  frame_duration_ms :: real
  start_delay_ms :: real
  elapsed_ms :: real
  active :: bool

text \<open>
  Modelled from the spec: the constructor of \<open>SimpleAnimation\<close> is missing. Sections
  4.2 and 7: it takes the origin, the frames, the duration of a frame and the start
  delay (after the screen, which is left out), and rejects an empty frame sequence;
  the animation is active from its construction, with no time elapsed.
\<close>

definition SimpleAnimation ::
  "real \<times> real \<Rightarrow> Surface list \<Rightarrow> real \<Rightarrow> real \<Rightarrow> error + Animation" where
  "SimpleAnimation p imgs dur delay =
     (if imgs = [] then Inl InvalidAnimationError
      else Inr \<lparr>origin = p, frames = imgs, frame_duration_ms = dur,
                start_delay_ms = delay, elapsed_ms = 0, active = True\<rparr>)"

text \<open>
  Modelled from the spec: \<open>SimpleAnimation.update\<close> is missing. Section 4.2: it adds
  the time to the time elapsed and does nothing once the animation is inactive; the
  animation becomes inactive as soon as the time elapsed has reached the start delay
  plus the duration of all frames.
\<close>

definition animation_update :: "Animation \<Rightarrow> real \<Rightarrow> Animation" where
  "animation_update a dt =
     (if active a
      then a\<lparr>elapsed_ms := elapsed_ms a + dt,
             active := \<not> (start_delay_ms a + frame_duration_ms a * real (length (frames a))
                           \<le> elapsed_ms a + dt)\<rparr>
      else a)"

subsection \<open>The creep\<close>

datatype creep_state = ALIVE | EXPLODING | DEAD

text \<open>
  The attributes of a \<open>Creep\<close>. \<open>image_size\<close> holds \<open>image_w\<close> and \<open>image_h\<close>, which
  only \<open>update\<close> assigns, and \<open>explode_animation\<close> is assigned by \<open>_explode\<close>: both are
  absent (\<open>None\<close>) until then, and reading an absent attribute raises
  \<open>AttributeError\<close>. \<open>in_groups\<close> says whether the sprite is still a member of a sprite
  group; \<open>Sprite.kill\<close> removes it from all of them. The screen is left out: only
  drawing uses it.
\<close>

record creep =
  speed :: real
  field :: Rect
  base_image :: Surface
  image_sf :: Surface
  explosion_images :: "Surface list"
  pos :: vec2d
  direction :: vec2d
  state :: creep_state
  health :: int
  counter :: real
  image_size :: "(int \<times> int) option"
  explode_animation :: "Animation option"
  in_groups :: bool

type_synonym outcome = "creep \<times> error option"

definition Creep_init ::
  "Surface \<Rightarrow> Surface list \<Rightarrow> Rect \<Rightarrow> vec2d \<Rightarrow> vec2d \<Rightarrow> real \<Rightarrow> creep" where
  "Creep_init creep_image expl fld init_position init_direction spd =
     \<lparr>speed = spd, field = fld, base_image = creep_image, image_sf = creep_image,
      explosion_images = expl, pos = init_position,
      direction = normalized init_direction, state = ALIVE, health = 15,
      counter = 0, image_size = None, explode_animation = None, in_groups = True\<rparr>"

definition is_alive :: "creep \<Rightarrow> bool" where
  "is_alive c = (state c = ALIVE \<or> state c = EXPLODING)"

definition kill :: "creep \<Rightarrow> creep" where
  "kill c = c\<lparr>in_groups := False\<rparr>"

subsection \<open>Random draws\<close>

text \<open>
  A finite distribution is the list of its outcomes, each with its probability.
  \<open>dist_return\<close> is the outcome that is certain, \<open>dist_bind\<close> draws from a
  distribution and continues with the value drawn.
\<close>

type_synonym 'a dist = "('a \<times> real) list"

definition dist_return :: "'a \<Rightarrow> 'a dist" where
  "dist_return v = [(v, 1)]"

definition dist_bind :: "'a dist \<Rightarrow> ('a \<Rightarrow> 'b dist) \<Rightarrow> 'b dist" where
  "dist_bind d f = concat (map (\<lambda>(v, p). map (\<lambda>(u, q). (u, p * q)) (f v)) d)"

text \<open>
  \<open>random.randint a b\<close> returns one of the integers from \<open>a\<close> to \<open>b\<close>, both
  included, each with the same probability.
\<close>

definition randint :: "int \<Rightarrow> int \<Rightarrow> int dist" where
  "randint a b = map (\<lambda>k. (k, 1 / real (length [a..b]))) [a..b]"

subsection \<open>The methods of the creep\<close>

text \<open>
  \<open>_change_direction\<close> with its two calls of \<open>randint\<close>: the second one is made only
  when the timer has passed the threshold drawn by the first.
\<close>

definition change_direction_random :: "creep \<Rightarrow> real \<Rightarrow> creep dist" where
  "change_direction_random c time_passed =
     (let c1 = c\<lparr>counter := counter c + time_passed\<rparr>
      in dist_bind (randint 400 500) (\<lambda>thr.
           if real_of_int thr < counter c1
           then dist_bind (randint (- 1) 1) (\<lambda>turn.
                  dist_return
                    (c1\<lparr>direction := rotate_v (direction c1) (real_of_int (45 * turn)),
                        counter := 0\<rparr>))
           else dist_return c1))"

text \<open>
  The same method once the draws are made: \<open>thr\<close> is the value that
  \<open>randint(400, 500)\<close> returned and \<open>turn\<close> the value that \<open>randint(-1, 1)\<close>
  returned (read only when the timer has passed \<open>thr\<close>). The functions below that
  take \<open>thr\<close> and \<open>turn\<close> describe one update for given draws.
\<close>

definition change_direction :: "creep \<Rightarrow> real \<Rightarrow> int \<Rightarrow> int \<Rightarrow> creep" where
  "change_direction c time_passed thr turn =
     (let c1 = c\<lparr>counter := counter c + time_passed\<rparr>
      in if real_of_int thr < counter c1
         then c1\<lparr>direction := rotate_v (direction c1) (real_of_int (45 * turn)),
                 counter := 0\<rparr>
         else c1)"

text \<open>
  The first part of the \<open>ALIVE\<close> branch of \<open>update\<close>: the heading change, the rotated
  image, the displacement and the size of the image.
\<close>

definition advance :: "transform_rotate \<Rightarrow> creep \<Rightarrow> real \<Rightarrow> int \<Rightarrow> int \<Rightarrow> creep" where
  "advance rot c time_passed thr turn =
     (let c1 = change_direction c time_passed thr turn;
          c2 = c1\<lparr>image_sf := rot (base_image c1) (- angle (direction c1))\<rparr>;
          displacement =
            \<lparr>vec_x = vec_x (direction c2) * speed c2 * time_passed,
             vec_y = vec_y (direction c2) * speed c2 * time_passed\<rparr>;
          c3 = c2\<lparr>pos := vec_add (pos c2) displacement\<rparr>
      in c3\<lparr>image_size := Some (get_size (image_sf c3))\<rparr>)"

definition bounds_rect :: "creep \<Rightarrow> int \<Rightarrow> int \<Rightarrow> Rect" where
  "bounds_rect c w h = inflate (field c) (- w) (- h)"

text \<open>The second part: the chain of tests against the walls.\<close>

definition wall_bounce :: "creep \<Rightarrow> Rect \<Rightarrow> creep" where
  "wall_bounce c b =
     (if vec_x (pos c) < real_of_int (left_r b)
      then c\<lparr>pos := (pos c)\<lparr>vec_x := real_of_int (left_r b)\<rparr>,
             direction := (direction c)\<lparr>vec_x := vec_x (direction c) * (- 1)\<rparr>\<rparr>
      else if real_of_int (right_r b) < vec_x (pos c)
      then c\<lparr>pos := (pos c)\<lparr>vec_x := real_of_int (right_r b)\<rparr>,
             direction := (direction c)\<lparr>vec_x := vec_x (direction c) * (- 1)\<rparr>\<rparr>
      else if vec_y (pos c) < real_of_int (top_r b)
      then c\<lparr>pos := (pos c)\<lparr>vec_y := real_of_int (top_r b)\<rparr>,
             direction := (direction c)\<lparr>vec_y := vec_y (direction c) * (- 1)\<rparr>\<rparr>
      else if real_of_int (bottom_r b) < vec_y (pos c)
      then c\<lparr>pos := (pos c)\<lparr>vec_y := real_of_int (bottom_r b)\<rparr>,
             direction := (direction c)\<lparr>vec_y := vec_y (direction c) * (- 1)\<rparr>\<rparr>
      else c)"

definition update :: "transform_rotate \<Rightarrow> creep \<Rightarrow> real \<Rightarrow> int \<Rightarrow> int \<Rightarrow> outcome" where
  "update rot c time_passed thr turn =
     (case state c of
        ALIVE \<Rightarrow>
          (let c1 = advance rot c time_passed thr turn
           in case image_size c1 of
                None \<Rightarrow> (c1, Some AttributeError)
              | Some (w, h) \<Rightarrow> (wall_bounce c1 (bounds_rect c1 w h), None))
      | EXPLODING \<Rightarrow>
          (case explode_animation c of
             None \<Rightarrow> (c, Some AttributeError)
           | Some a \<Rightarrow>
               if active a
               then (c\<lparr>explode_animation := Some (animation_update a time_passed)\<rparr>, None)
               else (kill (c\<lparr>state := DEAD\<rparr>), None))
      | DEAD \<Rightarrow> (c, None))"

text \<open>
  \<open>update\<close> with the draws it makes. \<open>move_on\<close> is the \<open>ALIVE\<close> branch after the
  call of \<open>_change_direction\<close>, up to the size of the image.
\<close>

definition move_on :: "transform_rotate \<Rightarrow> creep \<Rightarrow> real \<Rightarrow> creep" where
  "move_on rot c1 time_passed =
     (let c2 = c1\<lparr>image_sf := rot (base_image c1) (- angle (direction c1))\<rparr>;
          displacement =
            \<lparr>vec_x = vec_x (direction c2) * speed c2 * time_passed,
             vec_y = vec_y (direction c2) * speed c2 * time_passed\<rparr>;
          c3 = c2\<lparr>pos := vec_add (pos c2) displacement\<rparr>
      in c3\<lparr>image_size := Some (get_size (image_sf c3))\<rparr>)"

definition update_random :: "transform_rotate \<Rightarrow> creep \<Rightarrow> real \<Rightarrow> outcome dist" where
  "update_random rot c time_passed =
     (case state c of
        ALIVE \<Rightarrow>
          dist_bind (change_direction_random c time_passed) (\<lambda>c1.
            dist_return
              (let c2 = move_on rot c1 time_passed
               in case image_size c2 of
                    None \<Rightarrow> (c2, Some AttributeError)
                  | Some (w, h) \<Rightarrow> (wall_bounce c2 (bounds_rect c2 w h), None)))
      | EXPLODING \<Rightarrow>
          dist_return
            (case explode_animation c of
               None \<Rightarrow> (c, Some AttributeError)
             | Some a \<Rightarrow>
                 if active a
                 then (c\<lparr>explode_animation := Some (animation_update a time_passed)\<rparr>, None)
                 else (kill (c\<lparr>state := DEAD\<rparr>), None))
      | DEAD \<Rightarrow> dist_return (c, None))"

text \<open>\<open>int\<close> of a float: truncation toward zero.\<close>

definition py_int :: "real \<Rightarrow> int" where
  "py_int r = (if r < 0 then \<lceil>r\<rceil> else \<lfloor>r\<rfloor>)"

text \<open>
  The corner of the sprite on the screen, as \<open>_point_is_inside\<close> and \<open>draw\<close> compute it
  from the position and \<open>image_w\<close>, \<open>image_h\<close>, and the point in the coordinates of
  the image.
\<close>

definition sprite_corner :: "creep \<Rightarrow> int \<Rightarrow> int \<Rightarrow> int \<times> int" where
  "sprite_corner c w h =
     (py_int (vec_x (pos c) - real_of_int (w div 2)),
      py_int (vec_y (pos c) - real_of_int (h div 2)))"

definition img_point :: "creep \<Rightarrow> int \<Rightarrow> int \<Rightarrow> int \<times> int \<Rightarrow> int \<times> int" where
  "img_point c w h point =
     (fst point - fst (sprite_corner c w h), snd point - snd (sprite_corner c w h))"

definition point_is_inside :: "creep \<Rightarrow> int \<times> int \<Rightarrow> error + bool" where
  "point_is_inside c point =
     (case image_size c of
        None \<Rightarrow> Inl AttributeError
      | Some (w, h) \<Rightarrow>
          (case get_at_alpha (image_sf c) (img_point c w h point) of
             Inr a \<Rightarrow> Inr (0 < a)
           | Inl IndexError \<Rightarrow> Inr False
           | Inl e \<Rightarrow> Inl e))"

definition explode :: "creep \<Rightarrow> outcome" where
  "explode c =
     (let c1 = c\<lparr>state := EXPLODING\<rparr>
      in case explosion_images c1 of
           [] \<Rightarrow> (c1, Some IndexError)
         | img # _ \<Rightarrow>
             (case SimpleAnimation
                     (vec_x (pos c1) - real_of_int (surf_w img div 2),
                      vec_y (pos c1) - real_of_int (surf_h img div 2))
                     (explosion_images c1) 100 300 of
                Inl e \<Rightarrow> (c1, Some e)
              | Inr a \<Rightarrow> (c1\<lparr>explode_animation := Some a\<rparr>, None)))"

definition decrease_health :: "creep \<Rightarrow> int \<Rightarrow> bool \<Rightarrow> outcome" where
  "decrease_health c n is_paused =
     (if \<not> is_paused
      then (let c1 = c\<lparr>health := max 0 (health c - n)\<rparr>
            in if health c1 = 0 then explode c1 else (c1, None))
      else (c, None))"

definition mouse_click_event :: "creep \<Rightarrow> int \<times> int \<Rightarrow> bool \<Rightarrow> outcome" where
  "mouse_click_event c point is_paused =
     (case point_is_inside c point of
        Inl e \<Rightarrow> (c, Some e)
      | Inr True \<Rightarrow> decrease_health c 3 is_paused
      | Inr False \<Rightarrow> (c, None))"

text \<open>
  The rectangle in which \<open>draw\<close> blits the image: the rectangle of the image moved to
  the corner of the sprite (\<open>Rect.move\<close> truncates its arguments as \<open>int\<close> does).
\<close>

definition draw_rect :: "creep \<Rightarrow> int \<Rightarrow> int \<Rightarrow> Rect" where
  "draw_rect c w h =
     \<lparr>left_r = fst (sprite_corner c w h), top_r = snd (sprite_corner c w h),
      width_r = surf_w (image_sf c), height_r = surf_h (image_sf c)\<rparr>"

text \<open>\<open>n\<close> unpaused clicks on the same point, one after the other.\<close>

fun hits :: "nat \<Rightarrow> creep \<Rightarrow> int \<times> int \<Rightarrow> creep" where
  "hits 0 c point = c"
| "hits (Suc n) c point = hits n (fst (mouse_click_event c point False)) point"

subsection \<open>Concrete creeps\<close>

text \<open>
  A 20 by 20 opaque sprite, the field of \<open>run_game\<close>, and a creep created on the
  corner of the field, heading right at 0.05 px/ms. \<open>keep_size\<close> is a rotation that
  returns a surface of the size of the original, as \<open>pygame.transform.rotate\<close> does
  at angle 0. \<open>creep1\<close> is the creep after a first frame of 20 ms.
\<close>

definition sprite20 :: Surface where
  "sprite20 = \<lparr>surf_w = 20, surf_h = 20, surf_alpha = (\<lambda>_ _. 255)\<rparr>"

definition keep_size :: transform_rotate where
  "keep_size img a = img"

definition field0 :: Rect where
  "field0 = \<lparr>left_r = 50, top_r = 50, width_r = 300, height_r = 300\<rparr>"

definition creep0 :: creep where
  "creep0 =
     Creep_init sprite20 [sprite20, sprite20] field0
       \<lparr>vec_x = 50, vec_y = 50\<rparr> \<lparr>vec_x = 1, vec_y = 0\<rparr> (1 / 20)"

definition creep1 :: creep where
  "creep1 = fst (update keep_size creep0 20 500 0)"

text \<open>
  \<open>creep7\<close> is \<open>creep1\<close> with its timer at 450, and \<open>creep2\<close> is \<open>creep1\<close> moved
  to the middle of the top margin of the field.
  \<open>creep8\<close> stands at (100, 100) heading right in a field 134 wide, and \<open>rotate_45\<close>
  returns the sprite at angle 0 and a 28 by 28 surface at any other angle, the size
  of the 20 by 20 sprite turned by 45 degrees. \<open>creep8w\<close> is the same creep in a
  field 130 wide.
\<close>

definition creep7 :: creep where
  "creep7 = creep1\<lparr>counter := 450\<rparr>"

definition creep2 :: creep where
  "creep2 = creep1\<lparr>pos := \<lparr>vec_x = 100, vec_y = 50\<rparr>\<rparr>"

definition rotate_45 :: transform_rotate where
  "rotate_45 img a = (if a = 0 then img else img\<lparr>surf_w := 28, surf_h := 28\<rparr>)"

definition field8 :: Rect where
  "field8 = \<lparr>left_r = 0, top_r = 0, width_r = 134, height_r = 300\<rparr>"

definition creep8 :: creep where
  "creep8 =
     Creep_init sprite20 [sprite20, sprite20] field8
       \<lparr>vec_x = 100, vec_y = 100\<rparr> \<lparr>vec_x = 1, vec_y = 0\<rparr> (1 / 20)"

definition creep8w :: creep where
  "creep8w = creep8\<lparr>field := field8\<lparr>width_r := 130\<rparr>\<rparr>"

text \<open>
  \<open>creep_x\<close> is \<open>creep1\<close> after five clicks on its centre; \<open>creep_x1\<close> and
  \<open>creep_x2\<close> are \<open>creep_x\<close> after an update of 500 ms and of 50 ms, and \<open>creep_d\<close>
  is \<open>creep_x1\<close> after one more update.
\<close>

definition creep_x :: creep where
  "creep_x = hits 5 creep1 (60, 50)"

definition creep_x1 :: creep where
  "creep_x1 = fst (update keep_size creep_x 500 450 0)"

definition creep_x2 :: creep where
  "creep_x2 = fst (update keep_size creep_x 50 450 0)"

definition creep_d :: creep where
  "creep_d = fst (update keep_size creep_x1 20 450 0)"

section \<open>Properties\<close>

lemmas ev =
  update_def creep0_def Creep_init_def advance_def change_direction_def normalized_def
  get_length_def keep_size_def sprite20_def field0_def get_size_def bounds_rect_def
  inflate_def c_half_def wall_bounce_def right_r_def bottom_r_def vec_add_def Let_def
  creep1_def point_is_inside_def img_point_def sprite_corner_def py_int_def
  get_at_alpha_def mouse_click_event_def decrease_health_def explode_def
  SimpleAnimation_def animation_update_def kill_def creep2_def

lemmas ev2 =
  ev creep_x_def creep_x1_def creep_x2_def creep_d_def eval_nat_numeral draw_rect_def

subsection \<open>The steps of an update\<close>

lemma advance_health_state:
  "health (advance rot c dt thr turn) = health c \<and>
   state (advance rot c dt thr turn) = state c"
  by (simp add: advance_def change_direction_def Let_def)

lemma advance_image_size:
  "image_size (advance rot c dt thr turn) =
     Some (get_size (image_sf (advance rot c dt thr turn)))"
  by (simp add: advance_def Let_def)

lemma wall_bounce_health_state:
  "health (wall_bounce c b) = health c \<and> state (wall_bounce c b) = state c"
  by (simp add: wall_bounce_def)

lemma update_alive:
  "state c = ALIVE \<Longrightarrow>
   update rot c dt thr turn =
     (wall_bounce (advance rot c dt thr turn)
        (bounds_rect (advance rot c dt thr turn)
           (surf_w (image_sf (advance rot c dt thr turn)))
           (surf_h (image_sf (advance rot c dt thr turn)))), None)"
  by (simp add: update_def Let_def advance_image_size get_size_def)

lemma wall_bounce_counter: "counter (wall_bounce c b) = counter c"
  by (simp add: wall_bounce_def)

lemma advance_counter:
  "counter (advance rot c dt thr turn) = counter (change_direction c dt thr turn)"
  by (simp add: advance_def Let_def)

lemma wall_bounce_field_image:
  "field (wall_bounce c b) = field c \<and> image_sf (wall_bounce c b) = image_sf c
   \<and> image_size (wall_bounce c b) = image_size c"
  by (simp add: wall_bounce_def)

lemma rotate_v_zero: "rotate_v v 0 = v"
  by (simp add: rotate_v_def)

lemma change_direction_no_turn:
  "counter c + dt \<le> real_of_int thr \<or> turn = 0 \<Longrightarrow>
   direction (change_direction c dt thr turn) = direction c"
  by (auto simp: change_direction_def Let_def rotate_v_zero)

lemma advance_pos_direction:
  "direction (advance rot c dt thr turn) = direction (change_direction c dt thr turn)
   \<and> pos (advance rot c dt thr turn) =
       vec_add (pos c)
         \<lparr>vec_x = vec_x (direction (change_direction c dt thr turn)) * speed c * dt,
          vec_y = vec_y (direction (change_direction c dt thr turn)) * speed c * dt\<rparr>"
  by (simp add: advance_def change_direction_def Let_def)

lemma sqrt2_less: "sqrt 2 < 8 / 5"
  by (rule real_less_lsqrt) (simp_all add: power2_eq_square)

lemma sqrt2_pos: "0 \<le> sqrt 2"
  by simp

lemma adv8:
  "advance rotate_45 creep8 500 400 1 =
     creep8\<lparr>image_sf := sprite20\<lparr>surf_w := 28, surf_h := 28\<rparr>,
            pos := \<lparr>vec_x = 100 + 25 * sqrt 2 / 2, vec_y = 100 + 25 * sqrt 2 / 2\<rparr>,
            direction := \<lparr>vec_x = sqrt 2 / 2, vec_y = sqrt 2 / 2\<rparr>,
            counter := 0, image_size := Some (28, 28)\<rparr>"
  by (simp add: ev creep8_def field8_def rotate_45_def rotate_v_def angle_def
        math_atan2_def cos_45 sin_45 arctan_one)

lemma upd8:
  "update rotate_45 creep8 500 400 1 = (advance rotate_45 creep8 500 400 1, None)"
proof -
  have s: "state creep8 = ALIVE"
    by (simp add: creep8_def Creep_init_def)
  show ?thesis
    unfolding update_alive [OF s] unfolding adv8
    using sqrt2_less
    apply (simp add: wall_bounce_def bounds_rect_def inflate_def c_half_def right_r_def
          bottom_r_def creep8_def Creep_init_def field8_def sprite20_def)
    apply (insert sqrt2_pos)
    apply linarith
    done
qed

subsection \<open>The draws of an update\<close>

lemma bind_randint:
  "dist_bind (randint a b) f =
     concat (map (\<lambda>k. map (\<lambda>(u, q). (u, 1 / real (nat (b - a + 1)) * q)) (f k)) [a..b])"
  by (simp add: dist_bind_def randint_def comp_def)

lemma bind_return:
  "dist_bind d (\<lambda>v. dist_return (g v)) = map (\<lambda>(v, p). (g v, p)) d"
  by (induction d) (auto simp: dist_bind_def dist_return_def)

lemma randint_turn:
  "randint (- 1) 1 = [(- 1, 1 / 3), (0, 1 / 3), (1, 1 / 3)]"
  by (simp add: randint_def upto.simps)

lemma change_direction_random_eq:
  "change_direction_random c dt =
     concat (map (\<lambda>thr.
        if real_of_int thr < counter c + dt
        then map (\<lambda>turn.
               (c\<lparr>direction := rotate_v (direction c) (real_of_int (45 * turn)),
                   counter := 0\<rparr>, 1 / 101 * (1 / 3))) [- 1, 0, 1]
        else [(c\<lparr>counter := counter c + dt\<rparr>, 1 / 101)]) [400..500])"
proof -
  have "change_direction_random c dt =
      concat (map (\<lambda>thr. map (\<lambda>(u, q). (u, 1 / real (nat (500 - 400 + 1)) * q))
        (if real_of_int thr < counter c + dt
         then dist_bind (randint (- 1) 1) (\<lambda>turn.
                dist_return
                  (c\<lparr>direction := rotate_v (direction c) (real_of_int (45 * turn)),
                      counter := 0\<rparr>))
         else dist_return (c\<lparr>counter := counter c + dt\<rparr>))) [400..500])"
    unfolding change_direction_random_def Let_def bind_randint
    by (simp del: upto_rec_numeral cong: if_cong)
  also have "(\<lambda>thr. map (\<lambda>(u, q). (u, 1 / real (nat (500 - 400 + 1)) * q))
        (if real_of_int thr < counter c + dt
         then dist_bind (randint (- 1) 1) (\<lambda>turn.
                dist_return
                  (c\<lparr>direction := rotate_v (direction c) (real_of_int (45 * turn)),
                      counter := 0\<rparr>))
         else dist_return (c\<lparr>counter := counter c + dt\<rparr>)))
     = (\<lambda>thr.
        if real_of_int thr < counter c + dt
        then map (\<lambda>turn.
               (c\<lparr>direction := rotate_v (direction c) (real_of_int (45 * turn)),
                   counter := 0\<rparr>, 1 / 101 * (1 / 3))) [- 1, 0, 1]
        else [(c\<lparr>counter := counter c + dt\<rparr>, 1 / 101)])"
    by (rule ext) (simp add: bind_return randint_turn, simp add: dist_return_def)
  finally show ?thesis .
qed

lemma mass_concat:
  "(\<And>k. k \<in> set ks \<Longrightarrow> sum_list (map snd (f k)) = w) \<Longrightarrow>
   sum_list (map snd (concat (map f ks))) = real (length ks) * w"
  by (induction ks) (auto simp: algebra_simps)

lemma change_direction_random_mass:
  "sum_list (map snd (change_direction_random c dt)) = 1"
proof -
  have "sum_list (map snd (change_direction_random c dt))
          = real (length [400..500::int]) * (1 / 101)"
    unfolding change_direction_random_eq
    by (rule mass_concat) (simp del: upto_rec_numeral)
  then show ?thesis
    by (simp only: length_upto) simp?
qed


lemma advance_move_on:
  "advance rot c dt thr turn = move_on rot (change_direction c dt thr turn) dt"
  by (simp add: advance_def move_on_def Let_def)

lemma update_random_alive:
  assumes "state c = ALIVE"
  shows "update_random rot c dt =
     concat (map (\<lambda>thr.
        if real_of_int thr < counter c + dt
        then map (\<lambda>turn. (update rot c dt thr turn, 1 / 101 * (1 / 3))) [- 1, 0, 1]
        else [(update rot c dt thr 0, 1 / 101)]) [400..500])"
proof -
  define tail where "tail c1 =
     (let c2 = move_on rot c1 dt
      in case image_size c2 of
           None \<Rightarrow> (c2, Some AttributeError)
         | Some (w, h) \<Rightarrow> (wall_bounce c2 (bounds_rect c2 w h), None))" for c1
  have u: "update rot c dt thr turn = tail (change_direction c dt thr turn)" for thr turn
    using assms by (simp add: update_def tail_def advance_move_on Let_def)
  have "update_random rot c dt =
      dist_bind (change_direction_random c dt) (\<lambda>c1. dist_return (tail c1))"
    using assms by (simp add: update_random_def tail_def)
  then have "update_random rot c dt =
      map (\<lambda>(c1, p). (tail c1, p)) (change_direction_random c dt)"
    by (simp only: bind_return)
  also have "\<dots> = concat (map (\<lambda>thr. map (\<lambda>(c1, p). (tail c1, p))
        (if real_of_int thr < counter c + dt
         then map (\<lambda>turn.
               (c\<lparr>direction := rotate_v (direction c) (real_of_int (45 * turn)),
                   counter := 0\<rparr>, 1 / 101 * (1 / 3))) [- 1, 0, 1]
         else [(c\<lparr>counter := counter c + dt\<rparr>, 1 / 101)])) [400..500])"
    unfolding change_direction_random_eq
    by (simp only: map_concat map_map comp_def)
  also have "(\<lambda>thr. map (\<lambda>(c1, p). (tail c1, p))
        (if real_of_int thr < counter c + dt
         then map (\<lambda>turn.
               (c\<lparr>direction := rotate_v (direction c) (real_of_int (45 * turn)),
                   counter := 0\<rparr>, 1 / 101 * (1 / 3))) [- 1, 0, 1]
         else [(c\<lparr>counter := counter c + dt\<rparr>, 1 / 101)]))
     = (\<lambda>thr.
        if real_of_int thr < counter c + dt
        then map (\<lambda>turn. (update rot c dt thr turn, 1 / 101 * (1 / 3))) [- 1, 0, 1]
        else [(update rot c dt thr 0, 1 / 101)])"
    by (rule ext) (simp add: u change_direction_def Let_def)
  finally show ?thesis .
qed

lemma update_random_not_alive:
  "state c \<noteq> ALIVE \<Longrightarrow> update_random rot c dt = [(update rot c dt thr turn, 1)]"
  by (cases "state c") (simp_all add: update_random_def update_def dist_return_def)

subsection \<open>The steps of a click\<close>

lemma click_frame:
  "image_size (fst (mouse_click_event c p b)) = image_size c
   \<and> image_sf (fst (mouse_click_event c p b)) = image_sf c
   \<and> pos (fst (mouse_click_event c p b)) = pos c
   \<and> explosion_images (fst (mouse_click_event c p b)) = explosion_images c"
  by (simp add: mouse_click_event_def decrease_health_def explode_def SimpleAnimation_def
        Let_def split: sum.splits bool.splits list.splits)

lemma click_keeps_hit_test:
  "point_is_inside (fst (mouse_click_event c p b)) q = point_is_inside c q"
  by (simp add: point_is_inside_def img_point_def sprite_corner_def click_frame
        split: option.splits)

lemma hit_health:
  "point_is_inside c point = Inr True \<Longrightarrow>
   health (fst (mouse_click_event c point False)) = max 0 (health c - 3)"
  by (simp add: mouse_click_event_def decrease_health_def explode_def SimpleAnimation_def
        Let_def split: list.splits)

lemma hits_health:
  "point_is_inside c point = Inr True \<Longrightarrow>
   health (hits n c point) = max 0 (health c - 3 * int n) \<or> (n = 0 \<and> health (hits n c point) = health c)"
proof (induction n arbitrary: c)
  case 0
  then show ?case by simp
next
  case (Suc n)
  let ?c = "fst (mouse_click_event c point False)"
  have "point_is_inside ?c point = Inr True"
    using Suc.prems by (simp add: click_keeps_hit_test)
  from Suc.IH [OF this] show ?case
    using Suc.prems by (auto simp: hit_health)
qed

subsection \<open>Clicks while paused\<close>

text \<open>
  C5: with \<open>is_paused\<close> true, \<open>mouse_click_event\<close> leaves the creep as it was, for
  every creep and every point, whether the point hits or misses (and also when the
  hit test raises); \<open>_decrease_health\<close> itself returns without a change.
\<close>

theorem paused_click_no_effect:
  "fst (mouse_click_event c point True) = c \<and> decrease_health c n True = (c, None)"
  by (simp add: mouse_click_event_def decrease_health_def split: sum.splits bool.splits)

subsection \<open>An update never ends the life of a creep\<close>

text \<open>
  C10: an update of a creep in state \<open>ALIVE\<close> returns without an exception and keeps
  the health and the state, for every time step and every draw; and a call of
  \<open>mouse_click_event\<close> after which the creep is no longer \<open>ALIVE\<close> was made unpaused
  with a point that passed the hit test.
\<close>

theorem alive_left_only_by_hit:
  assumes "state c = ALIVE"
  shows "health (fst (update rot c dt thr turn)) = health c
       \<and> state (fst (update rot c dt thr turn)) = ALIVE
       \<and> snd (update rot c dt thr turn) = None
       \<and> (state (fst (mouse_click_event c point is_paused)) \<noteq> ALIVE
            \<longrightarrow> \<not> is_paused \<and> point_is_inside c point = Inr True)"
  using assms
  by (auto simp: update_alive wall_bounce_health_state advance_health_state
        mouse_click_event_def decrease_health_def split: sum.splits bool.splits)

theorem alive_left_only_by_hit_witness:
  "state (creep1\<lparr>health := 3\<rparr>) = ALIVE
   \<and> health (fst (update keep_size (creep1\<lparr>health := 3\<rparr>) 20 450 1)) = 3
   \<and> state (fst (update keep_size (creep1\<lparr>health := 3\<rparr>) 20 450 1)) = ALIVE
   \<and> state (fst (mouse_click_event (creep1\<lparr>health := 3\<rparr>) (60, 50) False)) \<noteq> ALIVE
   \<and> point_is_inside (creep1\<lparr>health := 3\<rparr>) (60, 50) = Inr True"
proof -
  have a: "state (creep1\<lparr>health := 3\<rparr>) = ALIVE"
    by (simp add: ev)
  have b: "state (fst (mouse_click_event (creep1\<lparr>health := 3\<rparr>) (60, 50) False)) \<noteq> ALIVE"
    by (simp add: ev)
  show ?thesis
    using a b alive_left_only_by_hit [OF a, of keep_size 20 450 1 "(60, 50)" False]
    by simp
qed

subsection \<open>The walls\<close>

text \<open>
  C3: in an update of a creep in state \<open>ALIVE\<close>, let \<open>m\<close> be the creep after the
  heading change, the displacement and the new image, and \<open>b\<close> the field inset by
  the size of that image. If the x coordinate is left of \<open>b\<close> it is set to the left
  edge and the x component of the direction is negated; otherwise, if it is right of
  \<open>b\<close>, it is set to the right edge and the x component is negated; in both cases
  the y coordinate and the y component stay as they are, whatever the y coordinate is.
  Only with the x coordinate inside is the y coordinate tested against the top and
  then the bottom edge, set to the edge it violates, and the y component negated.
  With both inside nothing changes.
\<close>

theorem wall_bounce_x_first:
  assumes "state c = ALIVE"
    and "m = advance rot c dt thr turn"
    and "b = bounds_rect m (surf_w (image_sf m)) (surf_h (image_sf m))"
    and "c' = fst (update rot c dt thr turn)"
  shows
    "(vec_x (pos m) < real_of_int (left_r b) \<longrightarrow>
        c' = m\<lparr>pos := (pos m)\<lparr>vec_x := real_of_int (left_r b)\<rparr>,
               direction := (direction m)\<lparr>vec_x := - vec_x (direction m)\<rparr>\<rparr>)
   \<and> (real_of_int (left_r b) \<le> vec_x (pos m) \<and> real_of_int (right_r b) < vec_x (pos m) \<longrightarrow>
        c' = m\<lparr>pos := (pos m)\<lparr>vec_x := real_of_int (right_r b)\<rparr>,
               direction := (direction m)\<lparr>vec_x := - vec_x (direction m)\<rparr>\<rparr>)
   \<and> (real_of_int (left_r b) \<le> vec_x (pos m) \<and> vec_x (pos m) \<le> real_of_int (right_r b)
        \<and> vec_y (pos m) < real_of_int (top_r b) \<longrightarrow>
        c' = m\<lparr>pos := (pos m)\<lparr>vec_y := real_of_int (top_r b)\<rparr>,
               direction := (direction m)\<lparr>vec_y := - vec_y (direction m)\<rparr>\<rparr>)
   \<and> (real_of_int (left_r b) \<le> vec_x (pos m) \<and> vec_x (pos m) \<le> real_of_int (right_r b)
        \<and> real_of_int (top_r b) \<le> vec_y (pos m) \<and> real_of_int (bottom_r b) < vec_y (pos m) \<longrightarrow>
        c' = m\<lparr>pos := (pos m)\<lparr>vec_y := real_of_int (bottom_r b)\<rparr>,
               direction := (direction m)\<lparr>vec_y := - vec_y (direction m)\<rparr>\<rparr>)
   \<and> (real_of_int (left_r b) \<le> vec_x (pos m) \<and> vec_x (pos m) \<le> real_of_int (right_r b)
        \<and> real_of_int (top_r b) \<le> vec_y (pos m) \<and> vec_y (pos m) \<le> real_of_int (bottom_r b) \<longrightarrow>
        c' = m)"
  using assms by (simp add: update_alive wall_bounce_def)

theorem wall_bounce_x_first_witness:
  "state creep0 = ALIVE
   \<and> vec_x (pos (advance keep_size creep0 20 500 0))
       < real_of_int (left_r (bounds_rect (advance keep_size creep0 20 500 0) 20 20))
   \<and> vec_y (pos (advance keep_size creep0 20 500 0))
       < real_of_int (top_r (bounds_rect (advance keep_size creep0 20 500 0) 20 20))
   \<and> pos (fst (update keep_size creep0 20 500 0)) = \<lparr>vec_x = 60, vec_y = 50\<rparr>
   \<and> direction (fst (update keep_size creep0 20 500 0)) = \<lparr>vec_x = - 1, vec_y = 0\<rparr>
   \<and> state creep2 = ALIVE
   \<and> vec_y (pos (advance keep_size creep2 20 500 0))
       < real_of_int (top_r (bounds_rect (advance keep_size creep2 20 500 0) 20 20))
   \<and> pos (fst (update keep_size creep2 20 500 0)) = \<lparr>vec_x = 99, vec_y = 60\<rparr>"
proof -
  have a: "state creep0 = ALIVE" and b: "state creep2 = ALIVE"
    by (simp_all add: ev)
  have x: "vec_x (pos (advance keep_size creep0 20 500 0))
       < real_of_int (left_r (bounds_rect (advance keep_size creep0 20 500 0) 20 20))"
    by (simp add: ev)
  have y: "vec_y (pos (advance keep_size creep0 20 500 0))
       < real_of_int (top_r (bounds_rect (advance keep_size creep0 20 500 0) 20 20))"
    by (simp add: ev)
  have s: "surf_w (image_sf (advance keep_size creep0 20 500 0)) = 20"
    "surf_h (image_sf (advance keep_size creep0 20 500 0)) = 20"
    "surf_w (image_sf (advance keep_size creep2 20 500 0)) = 20"
    "surf_h (image_sf (advance keep_size creep2 20 500 0)) = 20"
    by (simp_all add: ev)
  have m: "pos (advance keep_size creep0 20 500 0) = \<lparr>vec_x = 51, vec_y = 50\<rparr>"
    "direction (advance keep_size creep0 20 500 0) = \<lparr>vec_x = 1, vec_y = 0\<rparr>"
    "left_r (bounds_rect (advance keep_size creep0 20 500 0) 20 20) = 60"
    by (simp_all add: ev)
  have m2: "pos (advance keep_size creep2 20 500 0) = \<lparr>vec_x = 99, vec_y = 50\<rparr>"
    "bounds_rect (advance keep_size creep2 20 500 0) 20 20
       = \<lparr>left_r = 60, top_r = 60, width_r = 280, height_r = 280\<rparr>"
    by (simp_all add: ev)
  show ?thesis
    using a b x y
      wall_bounce_x_first [OF a refl refl refl, of keep_size 20 500 0]
      wall_bounce_x_first [OF b refl refl refl, of keep_size 20 500 0]
    by (simp add: s m m2 right_r_def)
qed

text \<open>
  C2, as the code has it: after an update of a creep in state \<open>ALIVE\<close>, with \<open>b\<close> the
  field inset by the size of the current image, the x coordinate lies between the
  left and the right edge of \<open>b\<close> whenever the left edge of \<open>b\<close> is not beyond its right edge; the y
  coordinate lies between the top and the bottom edge whenever \<open>b\<close> has a
  non-negative height and, before the walls were tested, the x coordinate or the y
  coordinate was already inside: the update corrects one axis only. This holds for
  every time step and every state before the update, hence along every sequence of
  updates.
\<close>

theorem update_position_bounds:
  assumes "state c = ALIVE"
    and "m = advance rot c dt thr turn"
    and "c' = fst (update rot c dt thr turn)"
    and "b = bounds_rect c' (surf_w (image_sf c')) (surf_h (image_sf c'))"
  shows
    "image_size c' = Some (surf_w (image_sf c'), surf_h (image_sf c'))
   \<and> (left_r b \<le> right_r b \<longrightarrow>
        real_of_int (left_r b) \<le> vec_x (pos c') \<and> vec_x (pos c') \<le> real_of_int (right_r b))
   \<and> (top_r b \<le> bottom_r b
        \<and> (real_of_int (left_r b) \<le> vec_x (pos m) \<and> vec_x (pos m) \<le> real_of_int (right_r b)
           \<or> real_of_int (top_r b) \<le> vec_y (pos m) \<and> vec_y (pos m) \<le> real_of_int (bottom_r b)) \<longrightarrow>
        real_of_int (top_r b) \<le> vec_y (pos c') \<and> vec_y (pos c') \<le> real_of_int (bottom_r b))"
proof -
  let ?b = "bounds_rect m (surf_w (image_sf m)) (surf_h (image_sf m))"
  have c': "c' = wall_bounce m ?b"
    using assms by (simp add: update_alive)
  have b: "b = ?b"
    using assms(4) by (simp add: c' wall_bounce_field_image bounds_rect_def)
  have sz: "image_size c' = Some (surf_w (image_sf c'), surf_h (image_sf c'))"
    using advance_image_size [of rot c dt thr turn]
    by (simp add: c' wall_bounce_field_image assms(2) get_size_def)
  have x: "left_r b \<le> right_r b \<Longrightarrow>
        real_of_int (left_r b) \<le> vec_x (pos c') \<and> vec_x (pos c') \<le> real_of_int (right_r b)"
    unfolding c' b [symmetric] by (simp add: wall_bounce_def)
  have y: "top_r b \<le> bottom_r b \<Longrightarrow>
        (real_of_int (left_r b) \<le> vec_x (pos m) \<and> vec_x (pos m) \<le> real_of_int (right_r b)
           \<or> real_of_int (top_r b) \<le> vec_y (pos m) \<and> vec_y (pos m) \<le> real_of_int (bottom_r b)) \<Longrightarrow>
        real_of_int (top_r b) \<le> vec_y (pos c') \<and> vec_y (pos c') \<le> real_of_int (bottom_r b)"
    unfolding c' b [symmetric] by (auto simp add: wall_bounce_def)
  show ?thesis using sz x y by blast
qed

theorem update_position_bounds_witness:
  "state creep2 = ALIVE
   \<and> bounds_rect (fst (update keep_size creep2 20 500 0)) 20 20
       = \<lparr>left_r = 60, top_r = 60, width_r = 280, height_r = 280\<rparr>
   \<and> 60 \<le> vec_x (pos (fst (update keep_size creep2 20 500 0)))
   \<and> vec_x (pos (fst (update keep_size creep2 20 500 0))) \<le> 340
   \<and> 60 \<le> vec_x (pos (advance keep_size creep2 20 500 0))
   \<and> vec_x (pos (advance keep_size creep2 20 500 0)) \<le> 340
   \<and> 60 \<le> vec_y (pos (fst (update keep_size creep2 20 500 0)))
   \<and> vec_y (pos (fst (update keep_size creep2 20 500 0))) \<le> 340"
proof -
  have a: "state creep2 = ALIVE"
    by (simp add: ev)
  have s: "surf_w (image_sf (fst (update keep_size creep2 20 500 0))) = 20"
    "surf_h (image_sf (fst (update keep_size creep2 20 500 0))) = 20"
    by (simp_all add: ev)
  have b: "bounds_rect (fst (update keep_size creep2 20 500 0)) 20 20
       = \<lparr>left_r = 60, top_r = 60, width_r = 280, height_r = 280\<rparr>"
    by (simp add: ev)
  have m: "pos (advance keep_size creep2 20 500 0) = \<lparr>vec_x = 99, vec_y = 50\<rparr>"
    by (simp add: ev)
  show ?thesis
    using a update_position_bounds [OF a refl refl refl, of keep_size 20 500 0]
    by (simp add: s b m right_r_def bottom_r_def)
qed

text \<open>
  C2 as stated fails: the creep created on the corner (50, 50) of the field, heading
  right, is moved to (51, 50) by its first update of 20 ms; the x coordinate is set
  to the left edge 60 of the inset field, and the y coordinate 50 stays above its top
  edge 60.
\<close>

theorem update_leaves_y_outside_counterexample:
  "state creep0 = ALIVE \<and> (0::real) < 20
   \<and> image_size (fst (update keep_size creep0 20 500 0)) = Some (20, 20)
   \<and> \<not> (real_of_int (top_r (bounds_rect (fst (update keep_size creep0 20 500 0)) 20 20))
          \<le> vec_y (pos (fst (update keep_size creep0 20 500 0))))"
  by (simp add: ev)

subsection \<open>The scenario of one bounce\<close>

text \<open>
  C8, as the code has it: a creep in state \<open>ALIVE\<close> at (100, 100), heading (1, 0), with
  speed 0.05 px/ms, is updated by 500 ms. If the heading change does not turn it (the
  timer has not passed the threshold drawn, or the turn drawn is 0 degrees), the
  right edge of the inset field is 120 and its left edge is not beyond the right
  one, then the displacement is 25 px, the x coordinate is set to 120 and the
  heading becomes (-1, 0).
\<close>

theorem bounce_scenario:
  assumes "state c = ALIVE"
    and "pos c = \<lparr>vec_x = 100, vec_y = 100\<rparr>"
    and "direction c = \<lparr>vec_x = 1, vec_y = 0\<rparr>"
    and "speed c = 1 / 20"
    and "counter c + 500 \<le> real_of_int thr \<or> turn = 0"
    and "m = advance rot c 500 thr turn"
    and "b = bounds_rect m (surf_w (image_sf m)) (surf_h (image_sf m))"
    and "right_r b = 120"
    and "left_r b \<le> right_r b"
    and "c' = fst (update rot c 500 thr turn)"
  shows "pos m = \<lparr>vec_x = 100 + 25, vec_y = 100\<rparr>
       \<and> pos c' = \<lparr>vec_x = 120, vec_y = 100\<rparr>
       \<and> direction c' = \<lparr>vec_x = - 1, vec_y = 0\<rparr>"
proof -
  have d: "direction m = \<lparr>vec_x = 1, vec_y = 0\<rparr>"
    using assms(3,5,6) by (simp add: advance_pos_direction change_direction_no_turn)
  have p: "pos m = \<lparr>vec_x = 125, vec_y = 100\<rparr>"
    using assms(2,3,4,5,6)
    by (simp add: advance_pos_direction change_direction_no_turn vec_add_def)
  have c': "c' = wall_bounce m b"
    using assms by (simp add: update_alive)
  have "left_r b \<le> 120" using assms(8,9) by simp
  then have "\<not> (125 < real_of_int (left_r b))" by linarith
  then show ?thesis
    using assms(8) by (simp add: c' wall_bounce_def p d)
qed

theorem bounce_scenario_witness:
  "state creep8w = ALIVE
   \<and> right_r (bounds_rect (advance keep_size creep8w 500 500 1) 20 20) = 120
   \<and> pos (advance keep_size creep8w 500 500 1) = \<lparr>vec_x = 125, vec_y = 100\<rparr>
   \<and> pos (fst (update keep_size creep8w 500 500 1)) = \<lparr>vec_x = 120, vec_y = 100\<rparr>
   \<and> direction (fst (update keep_size creep8w 500 500 1)) = \<lparr>vec_x = - 1, vec_y = 0\<rparr>"
proof -
  have a: "state creep8w = ALIVE" "pos creep8w = \<lparr>vec_x = 100, vec_y = 100\<rparr>"
    "direction creep8w = \<lparr>vec_x = 1, vec_y = 0\<rparr>" "speed creep8w = 1 / 20"
    by (simp_all add: creep8w_def creep8_def Creep_init_def normalized_def get_length_def)
  have b: "counter creep8w + 500 \<le> real_of_int 500 \<or> (1::int) = 0"
    by (simp add: creep8w_def creep8_def Creep_init_def)
  have r: "right_r (bounds_rect (advance keep_size creep8w 500 500 1)
             (surf_w (image_sf (advance keep_size creep8w 500 500 1)))
             (surf_h (image_sf (advance keep_size creep8w 500 500 1)))) = 120"
    by (simp add: ev creep8w_def creep8_def field8_def)
  have l: "left_r (bounds_rect (advance keep_size creep8w 500 500 1)
             (surf_w (image_sf (advance keep_size creep8w 500 500 1)))
             (surf_h (image_sf (advance keep_size creep8w 500 500 1))))
           \<le> right_r (bounds_rect (advance keep_size creep8w 500 500 1)
             (surf_w (image_sf (advance keep_size creep8w 500 500 1)))
             (surf_h (image_sf (advance keep_size creep8w 500 500 1))))"
    by (simp add: ev creep8w_def creep8_def field8_def)
  have s: "surf_w (image_sf (advance keep_size creep8w 500 500 1)) = 20"
    "surf_h (image_sf (advance keep_size creep8w 500 500 1)) = 20"
    by (simp_all add: ev creep8w_def creep8_def field8_def)
  show ?thesis
    using a(1) r bounce_scenario [OF a b refl refl r l refl]
    by (simp add: s)
qed

text \<open>
  C8 as stated fails when the heading change turns the creep: with the timer at 0,
  the threshold 400 and the turn +45 degrees, the heading becomes
  (sqrt 2 / 2, sqrt 2 / 2), the creep moves to about (117.7, 117.7), inside the inset
  field whose right edge is 120, and nothing is set to 120 or negated.
\<close>

theorem bounce_scenario_turn_counterexample:
  "state creep8 = ALIVE
   \<and> pos creep8 = \<lparr>vec_x = 100, vec_y = 100\<rparr>
   \<and> direction creep8 = \<lparr>vec_x = 1, vec_y = 0\<rparr>
   \<and> speed creep8 = 1 / 20
   \<and> image_size (fst (update rotate_45 creep8 500 400 1)) = Some (28, 28)
   \<and> right_r (bounds_rect (fst (update rotate_45 creep8 500 400 1)) 28 28) = 120
   \<and> vec_x (pos (fst (update rotate_45 creep8 500 400 1))) \<noteq> 120
   \<and> vec_x (direction (fst (update rotate_45 creep8 500 400 1))) \<noteq> - 1"
  unfolding upd8 adv8 using sqrt2_less
  apply (simp add: creep8_def Creep_init_def normalized_def get_length_def field8_def
        bounds_rect_def inflate_def c_half_def right_r_def)
  apply (insert sqrt2_pos)
  apply linarith
  done

subsection \<open>The heading change\<close>

text \<open>
  C7: \<open>_change_direction\<close> adds the time step to the timer and draws a threshold at
  every call: each integer from 400 to 500 with probability 1/101. If the sum is
  greater than the threshold drawn, a turn is drawn: each of -1, 0 and 1 with
  probability 1/3, so that the heading is rotated by -45, 0 or 45 degrees, each with
  the same probability, and the timer is set to 0; otherwise the sum is kept as the
  timer and nothing else changes. The probabilities add up to 1. An update of a creep
  in state \<open>ALIVE\<close> is distributed in the same way over the updates for the draws
  made, and such an update leaves the timer as the heading change has set it and
  moves the creep along the heading it has set.
\<close>

theorem heading_change_policy:
  "change_direction_random c dt =
     concat (map (\<lambda>thr.
        if real_of_int thr < counter c + dt
        then map (\<lambda>turn.
               (c\<lparr>direction := rotate_v (direction c) (real_of_int (45 * turn)),
                   counter := 0\<rparr>, 1 / 101 * (1 / 3))) [- 1, 0, 1]
        else [(c\<lparr>counter := counter c + dt\<rparr>, 1 / 101)]) [400..500])
   \<and> sum_list (map snd (change_direction_random c dt)) = 1
   \<and> (state c = ALIVE \<longrightarrow>
        update_random rot c dt =
          concat (map (\<lambda>thr.
            if real_of_int thr < counter c + dt
            then map (\<lambda>turn. (update rot c dt thr turn, 1 / 101 * (1 / 3))) [- 1, 0, 1]
            else [(update rot c dt thr 0, 1 / 101)]) [400..500]))
   \<and> change_direction c dt thr turn =
       (if real_of_int thr < counter c + dt
        then c\<lparr>direction := rotate_v (direction c) (real_of_int (45 * turn)), counter := 0\<rparr>
        else c\<lparr>counter := counter c + dt\<rparr>)
   \<and> (state c = ALIVE \<longrightarrow>
        counter (fst (update rot c dt thr turn)) = counter (change_direction c dt thr turn)
        \<and> direction (advance rot c dt thr turn) = direction (change_direction c dt thr turn))"
proof -
  have k: "change_direction c dt thr turn =
       (if real_of_int thr < counter c + dt
        then c\<lparr>direction := rotate_v (direction c) (real_of_int (45 * turn)), counter := 0\<rparr>
        else c\<lparr>counter := counter c + dt\<rparr>)"
    by (simp add: change_direction_def Let_def)
  have u: "state c = ALIVE \<Longrightarrow>
        counter (fst (update rot c dt thr turn)) = counter (change_direction c dt thr turn)
        \<and> direction (advance rot c dt thr turn) = direction (change_direction c dt thr turn)"
    by (simp add: update_alive wall_bounce_counter advance_counter advance_pos_direction)
  show ?thesis
    using change_direction_random_eq [of c dt] change_direction_random_mass [of c dt]
      update_random_alive [of c rot dt] k u
    by blast
qed

theorem heading_change_policy_witness:
  "state creep7 = ALIVE
   \<and> sum_list (map snd (change_direction_random creep7 20)) = 1
   \<and> (update keep_size creep7 20 460 1, 1 / 101 * (1 / 3)) \<in> set (update_random keep_size creep7 20)
   \<and> (update keep_size creep7 20 470 0, 1 / 101) \<in> set (update_random keep_size creep7 20)
   \<and> change_direction creep7 20 460 1
       = creep7\<lparr>direction := rotate_v (direction creep7) 45, counter := 0\<rparr>
   \<and> change_direction creep7 20 470 1 = creep7\<lparr>counter := 470\<rparr>
   \<and> counter (fst (update keep_size creep7 20 460 1)) = 0
   \<and> counter (fst (update keep_size creep7 20 470 1)) = 470"
proof -
  have a: "state creep7 = ALIVE" "counter creep7 = 450"
    by (simp_all add: creep7_def ev)
  have m1: "(update keep_size creep7 20 460 1, 1 / 101 * (1 / 3))
      \<in> set (if real_of_int 460 < counter creep7 + 20
             then map (\<lambda>turn. (update keep_size creep7 20 460 turn, 1 / 101 * (1 / 3))) [- 1, 0, 1]
             else [(update keep_size creep7 20 460 0, 1 / 101)])"
    by (simp add: a(2))
  have m2: "(update keep_size creep7 20 470 0, 1 / 101)
      \<in> set (if real_of_int 470 < counter creep7 + 20
             then map (\<lambda>turn. (update keep_size creep7 20 470 turn, 1 / 101 * (1 / 3))) [- 1, 0, 1]
             else [(update keep_size creep7 20 470 0, 1 / 101)])"
    by (simp add: a(2))
  have i: "(460::int) \<in> set [400..500]" "(470::int) \<in> set [400..500]"
    by (simp_all only: set_upto) simp_all
  have u: "update_random keep_size creep7 20 =
          concat (map (\<lambda>thr.
            if real_of_int thr < counter creep7 + 20
            then map (\<lambda>turn. (update keep_size creep7 20 thr turn, 1 / 101 * (1 / 3))) [- 1, 0, 1]
            else [(update keep_size creep7 20 thr 0, 1 / 101)]) [400..500])"
    using a(1) heading_change_policy [of creep7 20 keep_size 460 1] by blast
  have s1: "(update keep_size creep7 20 460 1, 1 / 101 * (1 / 3)) \<in> set (update_random keep_size creep7 20)"
    unfolding u set_concat set_map using m1 i(1) by blast
  have s2: "(update keep_size creep7 20 470 0, 1 / 101) \<in> set (update_random keep_size creep7 20)"
    unfolding u set_concat set_map using m2 i(2) by blast
  show ?thesis
    using a(1) s1 s2
      heading_change_policy [of creep7 20 keep_size 460 1]
      heading_change_policy [of creep7 20 keep_size 470 1]
    by (simp add: a(2))
qed

subsection \<open>Hits\<close>

text \<open>
  C4: an unpaused click whose point passes the hit test, on a creep with at least one
  explosion image, returns without an exception and leaves the health at the
  maximum of 0 and the health minus 3. After \<open>n\<close> such clicks the health is the
  maximum of 0 and the health minus \<open>3 * n\<close>: from the 15 of a new creep it is 0
  after five clicks and not before. A click that leaves the health positive changes
  nothing else; a click that brings it to 0 sets the state to \<open>EXPLODING\<close> and
  builds the animation from the explosion images with the frame duration 100, the
  start delay 300, the clock at 0, and as origin the position minus half the width
  and half the height (integer halves) of the first explosion image, which centres
  that image on the position.
\<close>

theorem hit_decreases_health:
  assumes "point_is_inside c point = Inr True"
    and "explosion_images c = img # imgs"
  shows "health (fst (mouse_click_event c point False)) = max 0 (health c - 3)
       \<and> snd (mouse_click_event c point False) = None
       \<and> (0 < n \<longrightarrow> health (hits n c point) = max 0 (health c - 3 * int n))
       \<and> (health c = 15 \<longrightarrow> (health (hits n c point) = 0) = (5 \<le> n))
       \<and> (3 < health c \<longrightarrow>
            fst (mouse_click_event c point False) = c\<lparr>health := health c - 3\<rparr>)
       \<and> (health c \<le> 3 \<longrightarrow>
            fst (mouse_click_event c point False) =
              c\<lparr>health := 0, state := EXPLODING,
                explode_animation :=
                  Some \<lparr>origin = (vec_x (pos c) - real_of_int (surf_w img div 2),
                                  vec_y (pos c) - real_of_int (surf_h img div 2)),
                        frames = img # imgs, frame_duration_ms = 100,
                        start_delay_ms = 300, elapsed_ms = 0, active = True\<rparr>\<rparr>)
       \<and> health (Creep_init i e f p0 d0 s) = 15
       \<and> state (Creep_init i e f p0 d0 s) = ALIVE"
proof -
  have h: "health (hits n c point) = max 0 (health c - 3 * int n)
            \<or> (n = 0 \<and> health (hits n c point) = health c)"
    using assms(1) by (rule hits_health)
  have a: "0 < n \<Longrightarrow> health (hits n c point) = max 0 (health c - 3 * int n)"
    using h by auto
  have b: "health c = 15 \<Longrightarrow> (health (hits n c point) = 0) = (5 \<le> n)"
    using h by auto
  have e: "mouse_click_event c point False =
      (if health c \<le> 3
       then (c\<lparr>health := 0, state := EXPLODING,
                explode_animation :=
                  Some \<lparr>origin = (vec_x (pos c) - real_of_int (surf_w img div 2),
                                  vec_y (pos c) - real_of_int (surf_h img div 2)),
                        frames = img # imgs, frame_duration_ms = 100,
                        start_delay_ms = 300, elapsed_ms = 0, active = True\<rparr>\<rparr>, None)
       else (c\<lparr>health := health c - 3\<rparr>, None))"
    using assms
    by (simp add: mouse_click_event_def decrease_health_def explode_def SimpleAnimation_def
          Let_def max_def)
  show ?thesis
    using a b by (simp add: e Creep_init_def)
qed

theorem hit_decreases_health_witness:
  "point_is_inside creep1 (60, 50) = Inr True
   \<and> health creep1 = 15
   \<and> health (fst (mouse_click_event creep1 (60, 50) False)) = 12
   \<and> fst (mouse_click_event creep1 (60, 50) False) = creep1\<lparr>health := 12\<rparr>
   \<and> health (hits 4 creep1 (60, 50)) = 3
   \<and> health (hits 5 creep1 (60, 50)) = 0
   \<and> state (hits 4 creep1 (60, 50)) = ALIVE
   \<and> state (fst (mouse_click_event (hits 4 creep1 (60, 50)) (60, 50) False)) = EXPLODING"
proof -
  have a: "point_is_inside creep1 (60, 50) = Inr True"
    "point_is_inside (hits 4 creep1 (60, 50)) (60, 50) = Inr True"
    by (simp_all add: ev2)
  have b: "explosion_images creep1 = sprite20 # [sprite20]"
    "explosion_images (hits 4 creep1 (60, 50)) = sprite20 # [sprite20]"
    by (simp_all add: ev2)
  have h: "health creep1 = 15" "state (hits 4 creep1 (60, 50)) = ALIVE"
    by (simp_all add: ev2)
  show ?thesis
    using a(1) h
      hit_decreases_health [OF a(1) b(1), of 4]
      hit_decreases_health [OF a(1) b(1), of 5]
      hit_decreases_health [OF a(2) b(2), of 1]
    by simp
qed

subsection \<open>Points outside the sprite\<close>

text \<open>
  Once the size of the image has been set, that is after the first update, a click
  point whose coordinates in the image fall outside the pixels of the image makes
  the hit test return False, without an exception, and the click changes nothing,
  paused or not; in particular a point strictly outside the rectangle in which the
  sprite is drawn is a miss and leaves the health as it was.
\<close>

lemma outside_point_misses:
  assumes "image_size c = Some (w, h)"
  shows "(fst (img_point c w h point) < 0 \<or> surf_w (image_sf c) \<le> fst (img_point c w h point)
          \<or> snd (img_point c w h point) < 0 \<or> surf_h (image_sf c) \<le> snd (img_point c w h point)
          \<longrightarrow> point_is_inside c point = Inr False
              \<and> mouse_click_event c point is_paused = (c, None))
       \<and> (fst point < left_r (draw_rect c w h) \<or> right_r (draw_rect c w h) < fst point
          \<or> snd point < top_r (draw_rect c w h) \<or> bottom_r (draw_rect c w h) < snd point
          \<longrightarrow> point_is_inside c point = Inr False
              \<and> health (fst (mouse_click_event c point is_paused)) = health c)"
  using assms
  by (auto simp: point_is_inside_def get_at_alpha_def mouse_click_event_def img_point_def
        draw_rect_def right_r_def bottom_r_def)

lemma outside_point_misses_example:
  "image_size creep1 = Some (20, 20)
   \<and> img_point creep1 20 20 (70, 50) = (20, 10)
   \<and> point_is_inside creep1 (70, 50) = Inr False
   \<and> mouse_click_event creep1 (70, 50) False = (creep1, None)
   \<and> right_r (draw_rect creep1 20 20) < 71
   \<and> health (fst (mouse_click_event creep1 (71, 50) False)) = 15"
proof -
  have a: "image_size creep1 = Some (20, 20)"
    by (simp add: ev2)
  have b: "img_point creep1 20 20 (70, 50) = (20, 10)" "surf_w (image_sf creep1) = 20"
    "right_r (draw_rect creep1 20 20) = 70" "health creep1 = 15"
    by (simp_all add: ev2)
  show ?thesis
    using a outside_point_misses [OF a, of "(70, 50)" False]
      outside_point_misses [OF a, of "(71, 50)" False]
    by (simp add: b)
qed

text \<open>
  C6 fails on the code for a creep that has not been updated yet: \<open>__init__\<close> does not
  set \<open>image_w\<close> and \<open>image_h\<close>, and \<open>_point_is_inside\<close> reads them before its \<open>try\<close>.
  The new creep at (50, 50) with its 20 by 20 image is clicked at (500, 500), far
  outside the image: the hit test raises \<open>AttributeError\<close> instead of returning
  False, and \<open>mouse_click_event\<close> passes the exception on.
\<close>

theorem click_before_first_update_raises:
  "image_size creep0 = None
   \<and> point_is_inside creep0 (500, 500) = Inl AttributeError
   \<and> mouse_click_event creep0 (500, 500) False = (creep0, Some AttributeError)"
  by (simp add: ev)

subsection \<open>The explosion\<close>

text \<open>
  C9, as the code has it: an update of a creep in state \<open>EXPLODING\<close> whose animation
  is active passes the time step to the animation and changes nothing else, so the
  creep stays \<open>EXPLODING\<close> in that call even when the animation becomes inactive in
  it; an update that finds the animation inactive sets the state to \<open>DEAD\<close> and
  removes the creep from its groups; an update of a creep in state \<open>DEAD\<close> changes
  nothing.
\<close>

theorem exploding_update:
  assumes "state c = EXPLODING" and "explode_animation c = Some a"
  shows "(active a \<longrightarrow>
            update rot c dt thr turn =
              (c\<lparr>explode_animation := Some (animation_update a dt)\<rparr>, None))
       \<and> (\<not> active a \<longrightarrow>
            update rot c dt thr turn = (c\<lparr>state := DEAD, in_groups := False\<rparr>, None))
       \<and> (state d = DEAD \<longrightarrow> update rot d dt thr turn = (d, None))"
  using assms by (simp add: update_def kill_def)

theorem exploding_update_witness:
  "state creep_x = EXPLODING
   \<and> state (fst (update keep_size creep_x 500 450 0)) = EXPLODING
   \<and> state creep_x1 = EXPLODING
   \<and> state (fst (update keep_size creep_x1 20 450 0)) = DEAD
   \<and> \<not> in_groups (fst (update keep_size creep_x1 20 450 0))
   \<and> state creep_d = DEAD
   \<and> update keep_size creep_d 20 450 0 = (creep_d, None)"
proof -
  let ?a = "\<lparr>origin = (50, 40), frames = [sprite20, sprite20], frame_duration_ms = 100,
             start_delay_ms = 300, elapsed_ms = 0, active = True\<rparr>"
  have s: "state creep_x = EXPLODING" "state creep_x1 = EXPLODING" "state creep_d = DEAD"
    by (simp_all add: ev2)
  have a: "explode_animation creep_x = Some ?a"
    by (simp add: ev2)
  have a1: "explode_animation creep_x1 = Some (animation_update ?a 500)"
    by (simp add: ev2)
  have i: "active ?a" "\<not> active (animation_update ?a 500)"
    by (simp_all add: animation_update_def)
  show ?thesis
    using s i
      exploding_update [OF s(1) a, of keep_size 500 450 0 creep_d]
      exploding_update [OF s(2) a1, of keep_size 20 450 0 creep_d]
    by simp
qed

text \<open>
  C9 as stated fails in the update in which the animation becomes inactive: the creep
  that has just started to explode is updated by 500 ms, the animation (two frames of
  100 ms after a delay of 300 ms) is inactive after the call, and the creep is still
  \<open>EXPLODING\<close> and still in its groups.
\<close>

theorem exploding_outlives_animation_counterexample:
  "state creep_x = EXPLODING
   \<and> map_option active (explode_animation creep_x) = Some True
   \<and> map_option active (explode_animation (fst (update keep_size creep_x 500 450 0)))
       = Some False
   \<and> state (fst (update keep_size creep_x 500 450 0)) = EXPLODING
   \<and> in_groups (fst (update keep_size creep_x 500 450 0))"
  by (simp add: ev2)

subsection \<open>Clicks on an exploding or dead creep\<close>

text \<open>
  C1 fails on the code: \<open>mouse_click_event\<close> does not look at the state. The creep that
  five clicks have set exploding, with its animation 50 ms on its way, is clicked
  again at the same point: the health is 0 again, \<open>_explode\<close> runs again and the
  animation is replaced by a new one with its clock at 0. The same click on the dead
  creep sets it back to \<open>EXPLODING\<close>.
\<close>

theorem click_restarts_explosion:
  "state creep_x = EXPLODING
   \<and> state creep_x2 = EXPLODING
   \<and> map_option elapsed_ms (explode_animation creep_x2) = Some 50
   \<and> state (fst (mouse_click_event creep_x2 (60, 50) False)) = EXPLODING
   \<and> map_option elapsed_ms (explode_animation (fst (mouse_click_event creep_x2 (60, 50) False)))
       = Some 0
   \<and> state creep_d = DEAD
   \<and> state (fst (mouse_click_event creep_d (60, 50) False)) = EXPLODING"
  by (simp add: ev2)

end
